theory Spec2Isabelle
  imports Complex_Main "HOL-Library.AList"
begin

section \<open>Python values, dictionaries and exceptions\<close>

text \<open>
  The values a decoded property can carry: JSON scalars. A finite float is modelled by the
  number it denotes; the code never computes with it, it only compares it (enum lookup),
  tests its truth value and passes it on.
\<close>

datatype pyval = VNone | VBool bool | VInt int | VFloat real | VStr string

text \<open>
  The exceptions of the modelled code. \<open>EnumValueError v\<close> is the \<open>ValueError\<close> that the
  enum lookup raises for a value \<open>v\<close> that is no member's value ("v is not a valid
  OperationMode"); \<open>DeviceException\<close> is the base class of \<open>exceptions.py\<close>.
\<close>

datatype exn = KeyError string | ValueError string | EnumValueError pyval | DeviceException string

fun is_ValueError :: "exn \<Rightarrow> bool" where
  "is_ValueError (ValueError m) = True"
| "is_ValueError (EnumValueError v) = True"
| "is_ValueError (KeyError k) = False"
| "is_ValueError (DeviceException m) = False"

text \<open>
  A Python dict is an association list with distinct keys in insertion order. Building one
  from a sequence of key/value pairs (a dict literal, a dict comprehension) stores the
  pairs from left to right: a key that is already present keeps its place and takes the
  new value.
\<close>

definition dict :: "('k \<times> 'v) list \<Rightarrow> ('k \<times> 'v) list" where
  "dict pairs = foldl (\<lambda>d (k, v). AList.update k v d) [] pairs"

text \<open>\<open>d[k]\<close> raises \<open>KeyError\<close> for a missing key; \<open>d.get(k)\<close> returns \<open>None\<close>.\<close>

definition getitem :: "(string \<times> 'v) list \<Rightarrow> string \<Rightarrow> exn + 'v" where
  "getitem d k = (case map_of d k of None \<Rightarrow> Inl (KeyError k) | Some v \<Rightarrow> Inr v)"

definition dict_get :: "(string \<times> pyval) list \<Rightarrow> string \<Rightarrow> pyval" where
  "dict_get d k = (case map_of d k of None \<Rightarrow> VNone | Some v \<Rightarrow> v)"

text \<open>The truth value of a Python object, as the conditional expression tests it.\<close>

fun truthy :: "pyval \<Rightarrow> bool" where
  "truthy VNone = False"
| "truthy (VBool b) = b"
| "truthy (VInt i) = (i \<noteq> 0)"
| "truthy (VFloat r) = (r \<noteq> 0)"
| "truthy (VStr s) = (s \<noteq> [])"

text \<open>\<open>v == n\<close> for an integer \<open>n\<close>: \<open>True == 1\<close>, \<open>2.0 == 2\<close>; a string or \<open>None\<close> equals no integer.\<close>

fun py_eq_int :: "pyval \<Rightarrow> int \<Rightarrow> bool" where
  "py_eq_int VNone n = False"
| "py_eq_int (VBool b) n = ((if b then 1 else 0) = n)"
| "py_eq_int (VInt i) n = (i = n)"
| "py_eq_int (VFloat r) n = (r = real_of_int n)"
| "py_eq_int (VStr s) n = False"

text \<open>\<open>"%s" % i\<close> for an integer: its decimal digits, with a minus sign when negative.\<close>

fun str_nat :: "nat \<Rightarrow> string" where
  "str_nat n = (if n < 10 then [''0123456789'' ! n]
                else str_nat (n div 10) @ [''0123456789'' ! (n mod 10)])"

declare str_nat.simps [simp del]

definition str_int :: "int \<Rightarrow> string" where
  "str_int i = (if i < 0 then CHR ''-'' # str_nat (nat (- i)) else str_nat (nat i))"

section \<open>The mapping tables\<close>

record PropertyRef =
  siid :: int
  piid :: int

text \<open>The items of the \<open>_MAPPING\<close> literal, in the order of the source.\<close>

definition MAPPING_items :: "(string \<times> PropertyRef) list" where
  "MAPPING_items =
    [(''power'', \<lparr>siid = 2, piid = 1\<rparr>),
     (''fault'', \<lparr>siid = 2, piid = 2\<rparr>),
     (''fan_level'', \<lparr>siid = 2, piid = 5\<rparr>),
     (''target_humidity'', \<lparr>siid = 2, piid = 6\<rparr>),
     (''status'', \<lparr>siid = 2, piid = 7\<rparr>),
     (''mode'', \<lparr>siid = 2, piid = 8\<rparr>),
     (''relative_humidity'', \<lparr>siid = 3, piid = 1\<rparr>),
     (''temperature'', \<lparr>siid = 3, piid = 7\<rparr>),
     (''buzzer'', \<lparr>siid = 5, piid = 1\<rparr>),
     (''led_light'', \<lparr>siid = 6, piid = 1\<rparr>),
     (''tank_filed'', \<lparr>siid = 7, piid = 1\<rparr>),
     (''water_shortage_fault'', \<lparr>siid = 7, piid = 2\<rparr>),
     (''humi_sensor_fault'', \<lparr>siid = 7, piid = 3\<rparr>),
     (''temp_sensor_fault'', \<lparr>siid = 7, piid = 4\<rparr>),
     (''overwet_protect'', \<lparr>siid = 7, piid = 5\<rparr>),
     (''overwet_protect_on'', \<lparr>siid = 7, piid = 6\<rparr>),
     (''overtop_humidity'', \<lparr>siid = 7, piid = 7\<rparr>),
     (''overtop_humidity'', \<lparr>siid = 7, piid = 8\<rparr>)]"

definition MAPPING :: "(string \<times> PropertyRef) list" where
  "MAPPING = dict MAPPING_items"

definition SUPPORTED_MODELS :: "string list" where
  "SUPPORTED_MODELS = [''deerma.humidifier.jsq2w'', ''deerma.humidifier.jsq2g'']"

definition MIOT_MAPPING :: "(string \<times> (string \<times> PropertyRef) list) list" where
  "MIOT_MAPPING = dict (map (\<lambda>model. (model, MAPPING)) SUPPORTED_MODELS)"

section \<open>The fan level enumeration\<close>

datatype OperationMode = Low | Mid | High | Auto

fun OperationMode_value :: "OperationMode \<Rightarrow> int" where
  "OperationMode_value Low = 1"
| "OperationMode_value Mid = 2"
| "OperationMode_value High = 3"
| "OperationMode_value Auto = 4"

text \<open>
  \<open>OperationMode(v)\<close>: the member whose value equals \<open>v\<close>, and a \<open>ValueError\<close> when there
  is none.
\<close>

definition OperationMode_call :: "pyval \<Rightarrow> exn + OperationMode" where
  "OperationMode_call v =
    (case find (\<lambda>m. py_eq_int v (OperationMode_value m)) [Low, Mid, High, Auto] of
       Some m \<Rightarrow> Inr m
     | None \<Rightarrow> Inl (EnumValueError v))"

section \<open>The status object and its accessors\<close>

text \<open>
  Modelled from the spec: \<open>get_properties_for_mapping\<close> is not part of the sources; one
  entry of its result is a PropertyResult with a symbolic name (\<open>did\<close>), an error code
  (\<open>code\<close>) and a value (\<open>value\<close>, here \<open>pvalue\<close>), which is never read when the code is
  not 0.
\<close>

record PropertyResult =
  did :: string
  code :: int
  pvalue :: pyval

record AirHumidifierJsqsStatus =
  data :: "(string \<times> pyval) list"

text \<open>What a call of the logger records: the format string and the exception passed.\<close>

datatype log_record = LogException string exn

definition is_on :: "AirHumidifierJsqsStatus \<Rightarrow> exn + pyval" where
  "is_on self = getitem (data self) ''power''"

definition power_str :: "AirHumidifierJsqsStatus \<Rightarrow> exn + string" where
  "power_str self =
    (case is_on self of
       Inl e \<Rightarrow> Inl e
     | Inr v \<Rightarrow> Inr (if truthy v then ''on'' else ''off''))"

definition error :: "AirHumidifierJsqsStatus \<Rightarrow> exn + pyval" where
  "error self = getitem (data self) ''fault''"

text \<open>
  The accessor returns the outcome and the records it logged. The \<open>KeyError\<close> of a missing
  key is raised inside the \<open>try\<close> block, but only a \<open>ValueError\<close> is caught.
\<close>

definition fan_level :: "AirHumidifierJsqsStatus \<Rightarrow> (exn + OperationMode) \<times> log_record list" where
  "fan_level self =
    (case getitem (data self) ''fan_level'' of
       Inl e \<Rightarrow> (Inl e, [])
     | Inr raw \<Rightarrow>
        (case OperationMode_call raw of
           Inl e \<Rightarrow>
             (if is_ValueError e
              then (Inr Auto, [LogException ''Cannot parse fan level: %s'' e])
              else (Inl e, []))
         | Inr m \<Rightarrow> (Inr m, [])))"

definition target_humidity :: "AirHumidifierJsqsStatus \<Rightarrow> pyval" where
  "target_humidity self = dict_get (data self) ''target_humidity''"

definition relative_humidity :: "AirHumidifierJsqsStatus \<Rightarrow> pyval" where
  "relative_humidity self = dict_get (data self) ''relative_humidity''"

definition temperature :: "AirHumidifierJsqsStatus \<Rightarrow> pyval" where
  "temperature self = dict_get (data self) ''temperature''"

definition buzzer :: "AirHumidifierJsqsStatus \<Rightarrow> pyval" where
  "buzzer self = dict_get (data self) ''buzzer''"

definition led_light :: "AirHumidifierJsqsStatus \<Rightarrow> pyval" where
  "led_light self = dict_get (data self) ''led_light''"

definition tank_filed :: "AirHumidifierJsqsStatus \<Rightarrow> pyval" where
  "tank_filed self = dict_get (data self) ''tank_filed''"

definition water_shortage_fault :: "AirHumidifierJsqsStatus \<Rightarrow> pyval" where
  "water_shortage_fault self = dict_get (data self) ''water_shortage_fault''"

definition humi_sensor_fault :: "AirHumidifierJsqsStatus \<Rightarrow> pyval" where
  "humi_sensor_fault self = dict_get (data self) ''humi_sensor_fault''"

definition overwet_protect :: "AirHumidifierJsqsStatus \<Rightarrow> pyval" where
  "overwet_protect self = dict_get (data self) ''overwet_protect''"

definition overwet_protect_on :: "AirHumidifierJsqsStatus \<Rightarrow> pyval" where
  "overwet_protect_on self = dict_get (data self) ''overwet_protect_on''"

definition overtop_humidity :: "AirHumidifierJsqsStatus \<Rightarrow> pyval" where
  "overtop_humidity self = dict_get (data self) ''overtop_humidity''"

definition temp_sensor_fault :: "AirHumidifierJsqsStatus \<Rightarrow> pyval" where
  "temp_sensor_fault self = dict_get (data self) ''temp_sensor_fault''"

section \<open>The device class\<close>

text \<open>
  The status object that \<open>status()\<close> builds from the entries the client returned: the dict
  comprehension and the constructor call.
\<close>

definition status_of :: "PropertyResult list \<Rightarrow> AirHumidifierJsqsStatus" where
  "status_of props =
    \<lparr>data = dict (map (\<lambda>prop. (did prop, if code prop = 0 then pvalue prop else VNone)) props)\<rparr>"

text \<open>
  \<open>status()\<close>, with the client's \<open>get_properties_for_mapping\<close> as a parameter: it returns
  the entries or raises, and may change the client's state. Its exception is not caught.
\<close>

definition status ::
  "('c \<Rightarrow> (exn + PropertyResult list) \<times> 'c) \<Rightarrow> 'c \<Rightarrow> (exn + AirHumidifierJsqsStatus) \<times> 'c" where
  "status get_properties_for_mapping self =
    (case get_properties_for_mapping self of
       (Inl e, self') \<Rightarrow> (Inl e, self')
     | (Inr props, self') \<Rightarrow> (Inr (status_of props), self'))"

text \<open>
  The set operations, with the client's \<open>set_property\<close> as a parameter: given a symbolic
  name and a value it returns a result or raises, and may change the client's state.
\<close>

type_synonym ('c, 'r) setter = "string \<Rightarrow> pyval \<Rightarrow> 'c \<Rightarrow> (exn + 'r) \<times> 'c"

definition on :: "('c, 'r) setter \<Rightarrow> 'c \<Rightarrow> (exn + 'r) \<times> 'c" where
  "on set_property self = set_property ''power'' (VBool True) self"

definition off :: "('c, 'r) setter \<Rightarrow> 'c \<Rightarrow> (exn + 'r) \<times> 'c" where
  "off set_property self = set_property ''power'' (VBool False) self"

definition set_target_humidity :: "('c, 'r) setter \<Rightarrow> int \<Rightarrow> 'c \<Rightarrow> (exn + 'r) \<times> 'c" where
  "set_target_humidity set_property humidity self =
    (if humidity \<le> 40 \<or> humidity \<ge> 70
     then (Inl (ValueError (''Invalid target humidity: '' @ str_int humidity
                             @ ''. Must be between 40 and 70'')), self)
     else set_property ''target_humidity'' (VInt humidity) self)"

definition set_fan_level :: "('c, 'r) setter \<Rightarrow> OperationMode \<Rightarrow> 'c \<Rightarrow> (exn + 'r) \<times> 'c" where
  "set_fan_level set_property fan_level' self =
    set_property ''fan_level'' (VInt (OperationMode_value fan_level')) self"

definition set_light :: "('c, 'r) setter \<Rightarrow> bool \<Rightarrow> 'c \<Rightarrow> (exn + 'r) \<times> 'c" where
  "set_light set_property light self = set_property ''led_light'' (VBool light) self"

definition set_buzzer :: "('c, 'r) setter \<Rightarrow> bool \<Rightarrow> 'c \<Rightarrow> (exn + 'r) \<times> 'c" where
  "set_buzzer set_property buzzer' self = set_property ''buzzer'' (VBool buzzer') self"

definition set_overwet_protect :: "('c, 'r) setter \<Rightarrow> bool \<Rightarrow> 'c \<Rightarrow> (exn + 'r) \<times> 'c" where
  "set_overwet_protect set_property overwet self =
    set_property ''overwet_protect'' (VBool overwet) self"

definition set_overwet_protect_on :: "('c, 'r) setter \<Rightarrow> bool \<Rightarrow> 'c \<Rightarrow> (exn + 'r) \<times> 'c" where
  "set_overwet_protect_on set_property overwet_protect_on' self =
    set_property ''overwet_protect_on'' (VBool overwet_protect_on') self"

text \<open>The symbolic names that the set operations pass to the client.\<close>

definition facade_names :: "string list" where
  "facade_names = [''power'', ''target_humidity'', ''fan_level'', ''led_light'', ''buzzer'',
                   ''overwet_protect'', ''overwet_protect_on'']"

text \<open>
  A client that records every SET call it receives: its state is the sequence of calls so
  far, and its outcome is any function \<open>reply\<close> of that history and the call.
\<close>

type_synonym call = "string \<times> pyval"

definition recording :: "(call list \<Rightarrow> call \<Rightarrow> exn + 'r) \<Rightarrow> (call list, 'r) setter" where
  "recording reply name v calls = (reply calls (name, v), calls @ [(name, v)])"

definition accepting :: "call list \<Rightarrow> call \<Rightarrow> exn + unit" where
  "accepting calls c = Inr ()"

definition failing :: "call list \<Rightarrow> call \<Rightarrow> exn + unit" where
  "failing calls c = Inl (DeviceException ''No response from the device'')"

section \<open>Sample inputs\<close>

text \<open>A response in which the device reports an error for every property.\<close>

definition all_errored :: "PropertyResult list" where
  "all_errored =
    [\<lparr>did = ''power'', code = - 4001, pvalue = VNone\<rparr>,
     \<lparr>did = ''fault'', code = - 4001, pvalue = VNone\<rparr>,
     \<lparr>did = ''fan_level'', code = - 4001, pvalue = VNone\<rparr>,
     \<lparr>did = ''target_humidity'', code = - 4001, pvalue = VNone\<rparr>,
     \<lparr>did = ''relative_humidity'', code = - 4001, pvalue = VNone\<rparr>,
     \<lparr>did = ''temperature'', code = - 4001, pvalue = VNone\<rparr>,
     \<lparr>did = ''buzzer'', code = - 4001, pvalue = VNone\<rparr>,
     \<lparr>did = ''led_light'', code = - 4001, pvalue = VNone\<rparr>,
     \<lparr>did = ''tank_filed'', code = - 4001, pvalue = VNone\<rparr>,
     \<lparr>did = ''water_shortage_fault'', code = - 4001, pvalue = VNone\<rparr>,
     \<lparr>did = ''humi_sensor_fault'', code = - 4001, pvalue = VNone\<rparr>,
     \<lparr>did = ''temp_sensor_fault'', code = - 4001, pvalue = VNone\<rparr>,
     \<lparr>did = ''overwet_protect'', code = - 4001, pvalue = VNone\<rparr>,
     \<lparr>did = ''overwet_protect_on'', code = - 4001, pvalue = VNone\<rparr>,
     \<lparr>did = ''overtop_humidity'', code = - 4001, pvalue = VNone\<rparr>]"

text \<open>A response in which every property was read.\<close>

definition all_ok :: "PropertyResult list" where
  "all_ok =
    [\<lparr>did = ''power'', code = 0, pvalue = VBool True\<rparr>,
     \<lparr>did = ''fault'', code = 0, pvalue = VInt 0\<rparr>,
     \<lparr>did = ''fan_level'', code = 0, pvalue = VInt 2\<rparr>,
     \<lparr>did = ''target_humidity'', code = 0, pvalue = VInt 55\<rparr>,
     \<lparr>did = ''relative_humidity'', code = 0, pvalue = VInt 0\<rparr>,
     \<lparr>did = ''temperature'', code = 0, pvalue = VFloat 23.5\<rparr>,
     \<lparr>did = ''buzzer'', code = 0, pvalue = VBool False\<rparr>,
     \<lparr>did = ''led_light'', code = 0, pvalue = VBool True\<rparr>,
     \<lparr>did = ''tank_filed'', code = 0, pvalue = VBool True\<rparr>,
     \<lparr>did = ''water_shortage_fault'', code = 0, pvalue = VBool False\<rparr>,
     \<lparr>did = ''humi_sensor_fault'', code = 0, pvalue = VBool False\<rparr>,
     \<lparr>did = ''temp_sensor_fault'', code = 0, pvalue = VBool False\<rparr>,
     \<lparr>did = ''overwet_protect'', code = 0, pvalue = VBool True\<rparr>,
     \<lparr>did = ''overwet_protect_on'', code = 0, pvalue = VBool False\<rparr>,
     \<lparr>did = ''overtop_humidity'', code = 0, pvalue = VBool False\<rparr>]"

text \<open>
  Two clients, whose state counts the requests sent: one answers with a value for one
  property and an error for another, the other gets no answer from the device.
\<close>

definition partial_outage :: "nat \<Rightarrow> (exn + PropertyResult list) \<times> nat" where
  "partial_outage requests =
    (Inr [\<lparr>did = ''target_humidity'', code = 0, pvalue = VInt 55\<rparr>,
          \<lparr>did = ''temperature'', code = - 4001, pvalue = VNone\<rparr>], Suc requests)"

definition unreachable :: "nat \<Rightarrow> (exn + PropertyResult list) \<times> nat" where
  "unreachable requests = (Inl (DeviceException ''No response from the device''), Suc requests)"

text \<open>A client to which the device reports an error for every property.\<close>

definition outage :: "nat \<Rightarrow> (exn + PropertyResult list) \<times> nat" where
  "outage requests = (Inr all_errored, Suc requests)"

text \<open>
  A response with an error for \<open>power\<close> and \<open>fan_level\<close> only, the client that receives it,
  and the response of a device that is switched off at level 4.
\<close>

definition power_fan_errored :: "PropertyResult list" where
  "power_fan_errored =
    [\<lparr>did = ''power'', code = - 4001, pvalue = VNone\<rparr>,
     \<lparr>did = ''fan_level'', code = - 4001, pvalue = VNone\<rparr>,
     \<lparr>did = ''target_humidity'', code = 0, pvalue = VInt 55\<rparr>,
     \<lparr>did = ''relative_humidity'', code = 0, pvalue = VInt 41\<rparr>]"

definition power_fan_outage :: "nat \<Rightarrow> (exn + PropertyResult list) \<times> nat" where
  "power_fan_outage requests = (Inr power_fan_errored, Suc requests)"

definition switched_off_auto :: "PropertyResult list" where
  "switched_off_auto =
    [\<lparr>did = ''power'', code = 0, pvalue = VBool False\<rparr>,
     \<lparr>did = ''fan_level'', code = 0, pvalue = VInt 4\<rparr>,
     \<lparr>did = ''target_humidity'', code = 0, pvalue = VInt 55\<rparr>,
     \<lparr>did = ''relative_humidity'', code = 0, pvalue = VInt 41\<rparr>]"

section \<open>Dictionaries and the status object\<close>

lemma map_of_foldl_update:
  "map_of (foldl (\<lambda>d (k, v). AList.update k v d) d0 xs) = map_of d0 ++ map_of (rev xs)"
proof (induction xs arbitrary: d0)
  case Nil
  show ?case by simp
next
  case (Cons x xs)
  obtain k v where x: "x = (k, v)" by (cases x)
  show ?case
    by (simp add: Cons.IH x update_conv' map_add_def fun_eq_iff split: option.splits)
qed

lemma map_of_dict: "map_of (dict xs) = map_of (rev xs)"
  by (simp add: dict_def map_of_foldl_update)

lemma distinct_foldl_update:
  "distinct (map fst d0) \<Longrightarrow> distinct (map fst (foldl (\<lambda>d (k, v). AList.update k v d) d0 xs))"
  by (induction xs arbitrary: d0) (auto simp: distinct_update split: prod.splits)

lemma distinct_dict: "distinct (map fst (dict xs))"
  by (simp add: dict_def distinct_foldl_update)

lemma keys_dict: "fst ` set (dict xs) = fst ` set xs"
proof -
  have "dom (map_of (dict xs)) = dom (map_of (rev xs))" by (simp add: map_of_dict)
  then show ?thesis by (simp add: dom_map_of_conv_image_fst)
qed

lemma map_of_dict_decides:
  assumes "k \<notin> fst ` set post"
  shows "map_of (dict (pre @ (k, v) # post)) k = Some v"
proof -
  have "map_of (rev post) k = None" using assms by (simp add: map_of_eq_None_iff)
  then show ?thesis by (simp add: map_of_dict map_add_def)
qed

lemma status_of_decides:
  assumes "props = pre @ p # post" and "did p \<notin> did ` set post"
  shows "map_of (data (status_of props)) (did p) = Some (if code p = 0 then pvalue p else VNone)"
proof -
  let ?f = "\<lambda>prop. (did prop, if code prop = 0 then pvalue prop else VNone)"
  have "did p \<notin> fst ` set (map ?f post)" using assms(2) by (auto simp: image_iff)
  then have "map_of (dict (map ?f pre @ (did p, if code p = 0 then pvalue p else VNone) # map ?f post)) (did p)
    = Some (if code p = 0 then pvalue p else VNone)"
    by (rule map_of_dict_decides)
  then show ?thesis by (simp add: status_of_def assms(1))
qed

lemma keys_status_of: "fst ` set (data (status_of props)) = did ` set props"
  by (simp add: status_of_def keys_dict image_image)

lemma getitem_present: "map_of d k = Some v \<Longrightarrow> getitem d k = Inr v"
  by (simp add: getitem_def)

lemma dict_get_present: "map_of d k = Some v \<Longrightarrow> dict_get d k = v"
  by (simp add: dict_get_def)

lemma OperationMode_call_cases:
  "OperationMode_call v =
    (if py_eq_int v 1 then Inr Low else if py_eq_int v 2 then Inr Mid
     else if py_eq_int v 3 then Inr High else if py_eq_int v 4 then Inr Auto
     else Inl (EnumValueError v))"
  by (simp add: OperationMode_call_def)

lemma fan_level_present:
  "map_of (data self) ''fan_level'' = Some v \<Longrightarrow>
   fan_level self =
    (if py_eq_int v 1 then (Inr Low, []) else if py_eq_int v 2 then (Inr Mid, [])
     else if py_eq_int v 3 then (Inr High, []) else if py_eq_int v 4 then (Inr Auto, [])
     else (Inr Auto, [LogException ''Cannot parse fan level: %s'' (EnumValueError v)]))"
  by (simp add: fan_level_def getitem_present OperationMode_call_cases)

lemma power_str_present:
  "map_of (data self) ''power'' = Some v \<Longrightarrow>
   power_str self = Inr (if truthy v then ''on'' else ''off'')"
  by (simp add: power_str_def is_on_def getitem_present)

lemma MAPPING_eq:
  "MAPPING =
    [(''power'', \<lparr>siid = 2, piid = 1\<rparr>),
     (''fault'', \<lparr>siid = 2, piid = 2\<rparr>),
     (''fan_level'', \<lparr>siid = 2, piid = 5\<rparr>),
     (''target_humidity'', \<lparr>siid = 2, piid = 6\<rparr>),
     (''status'', \<lparr>siid = 2, piid = 7\<rparr>),
     (''mode'', \<lparr>siid = 2, piid = 8\<rparr>),
     (''relative_humidity'', \<lparr>siid = 3, piid = 1\<rparr>),
     (''temperature'', \<lparr>siid = 3, piid = 7\<rparr>),
     (''buzzer'', \<lparr>siid = 5, piid = 1\<rparr>),
     (''led_light'', \<lparr>siid = 6, piid = 1\<rparr>),
     (''tank_filed'', \<lparr>siid = 7, piid = 1\<rparr>),
     (''water_shortage_fault'', \<lparr>siid = 7, piid = 2\<rparr>),
     (''humi_sensor_fault'', \<lparr>siid = 7, piid = 3\<rparr>),
     (''temp_sensor_fault'', \<lparr>siid = 7, piid = 4\<rparr>),
     (''overwet_protect'', \<lparr>siid = 7, piid = 5\<rparr>),
     (''overwet_protect_on'', \<lparr>siid = 7, piid = 6\<rparr>),
     (''overtop_humidity'', \<lparr>siid = 7, piid = 8\<rparr>)]"
  by (simp add: MAPPING_def MAPPING_items_def dict_def)

lemma MIOT_MAPPING_eq:
  "MIOT_MAPPING = [(''deerma.humidifier.jsq2w'', MAPPING), (''deerma.humidifier.jsq2g'', MAPPING)]"
  by (simp add: MIOT_MAPPING_def SUPPORTED_MODELS_def dict_def)

text \<open>The names of \<open>facade_names\<close> are the names that the set operations pass to the client.\<close>

lemma facade_names_are_the_names_set:
  "set facade_names =
     fst ` set (snd (on (recording reply) [])
                @ snd (off (recording reply) [])
                @ snd (set_target_humidity (recording reply) 55 [])
                @ snd (set_fan_level (recording reply) m [])
                @ snd (set_light (recording reply) b [])
                @ snd (set_buzzer (recording reply) b [])
                @ snd (set_overwet_protect (recording reply) b [])
                @ snd (set_overwet_protect_on (recording reply) b []))"
  by (simp add: facade_names_def on_def off_def set_target_humidity_def set_fan_level_def
      set_light_def set_buzzer_def set_overwet_protect_def set_overwet_protect_on_def
      recording_def insert_commute)

section \<open>Readings of the status object\<close>

text \<open>
  C4: when the raw value stored under \<open>fan_level\<close> is an integer other than 1, 2, 3 and 4,
  the \<open>fan_level\<close> accessor returns the fallback member \<open>Auto\<close> and logs one record
  ("Cannot parse fan level", with the \<open>ValueError\<close> of the enum lookup); it raises nothing.
\<close>

theorem fan_level_out_of_range:
  assumes "map_of (data self) ''fan_level'' = Some (VInt raw)" and "raw \<notin> {1, 2, 3, 4}"
  shows "fan_level self =
    (Inr Auto, [LogException ''Cannot parse fan level: %s'' (EnumValueError (VInt raw))])"
  using assms by (simp add: fan_level_present)

theorem fan_level_out_of_range_witness:
  "map_of (data \<lparr>data = [(''fan_level'', VInt 9)]\<rparr>) ''fan_level'' = Some (VInt 9)
   \<and> (9::int) \<notin> {1, 2, 3, 4}
   \<and> fan_level \<lparr>data = [(''fan_level'', VInt 9)]\<rparr> =
       (Inr Auto, [LogException ''Cannot parse fan level: %s'' (EnumValueError (VInt 9))])"
  using fan_level_out_of_range [of "\<lparr>data = [(''fan_level'', VInt 9)]\<rparr>" 9] by simp

text \<open>
  C10: when the entry that decides \<open>power\<close> in a response carries a non-zero error code,
  \<open>is_on\<close> returns \<open>None\<close> and \<open>power\<close> returns the string "off", which is also what it
  returns for a device that reports to be switched off.
\<close>

theorem power_unavailable_reads_off:
  assumes "props = pre @ p # post" and "did p = ''power''" and "''power'' \<notin> did ` set post"
    and "code p \<noteq> 0"
  shows "is_on (status_of props) = Inr VNone
    \<and> power_str (status_of props) = Inr ''off''
    \<and> power_str (status_of props)
        = power_str (status_of [\<lparr>did = ''power'', code = 0, pvalue = VBool False\<rparr>])"
proof -
  have look: "map_of (data (status_of props)) ''power'' = Some VNone"
    using status_of_decides [OF assms(1)] assms(2,3,4) by simp
  have off: "map_of (data (status_of [\<lparr>did = ''power'', code = 0, pvalue = VBool False\<rparr>])) ''power''
      = Some (VBool False)"
    using status_of_decides [of "[\<lparr>did = ''power'', code = 0, pvalue = VBool False\<rparr>]" "[]"
        "\<lparr>did = ''power'', code = 0, pvalue = VBool False\<rparr>" "[]"] by simp
  show ?thesis
    by (simp add: is_on_def getitem_present [OF look] power_str_present [OF look]
        power_str_present [OF off])
qed

theorem power_unavailable_reads_off_witness:
  "is_on (status_of [\<lparr>did = ''power'', code = - 4001, pvalue = VNone\<rparr>,
                     \<lparr>did = ''temperature'', code = 0, pvalue = VInt 23\<rparr>]) = Inr VNone
   \<and> power_str (status_of [\<lparr>did = ''power'', code = - 4001, pvalue = VNone\<rparr>,
                           \<lparr>did = ''temperature'', code = 0, pvalue = VInt 23\<rparr>]) = Inr ''off''
   \<and> power_str (status_of [\<lparr>did = ''power'', code = - 4001, pvalue = VNone\<rparr>,
                           \<lparr>did = ''temperature'', code = 0, pvalue = VInt 23\<rparr>])
       = power_str (status_of [\<lparr>did = ''power'', code = 0, pvalue = VBool False\<rparr>])"
  by (rule power_unavailable_reads_off
      [of _ "[]" "\<lparr>did = ''power'', code = - 4001, pvalue = VNone\<rparr>"
        "[\<lparr>did = ''temperature'', code = 0, pvalue = VInt 23\<rparr>]"]) simp_all

text \<open>
  C1, as stated, fails: for an errored \<open>fan_level\<close> entry the accessor returns \<open>Auto\<close>, the
  reading of a device that reports level 4, and for an errored \<open>power\<close> entry the \<open>power\<close>
  accessor returns "off", the reading of a device that is switched off.
\<close>

theorem errored_property_counterexample:
  "fst (fan_level (status_of [\<lparr>did = ''fan_level'', code = - 4001, pvalue = VNone\<rparr>])) = Inr Auto
   \<and> fst (fan_level (status_of [\<lparr>did = ''fan_level'', code = 0, pvalue = VInt 4\<rparr>])) = Inr Auto
   \<and> power_str (status_of [\<lparr>did = ''power'', code = - 4001, pvalue = VNone\<rparr>]) = Inr ''off''
   \<and> power_str (status_of [\<lparr>did = ''power'', code = 0, pvalue = VBool False\<rparr>]) = Inr ''off''"
  by (simp add: status_of_def dict_def fan_level_def power_str_def is_on_def getitem_def
      OperationMode_call_def)

text \<open>
  C1, amended: let an entry of a response carry a non-zero error code and be the last entry
  of the response for its name. Then no accessor of that name raises; \<open>is_on\<close>, \<open>error\<close> and
  the accessors \<open>target_humidity\<close>, \<open>relative_humidity\<close>, \<open>temperature\<close>, \<open>buzzer\<close>,
  \<open>led_light\<close>, \<open>tank_filed\<close>, \<open>water_shortage_fault\<close>, \<open>humi_sensor_fault\<close>,
  \<open>temp_sensor_fault\<close>, \<open>overwet_protect\<close>, \<open>overwet_protect_on\<close> and \<open>overtop_humidity\<close>
  return \<open>None\<close>; \<open>fan_level\<close> returns \<open>Auto\<close> and logs one record; \<open>power\<close> returns "off".
\<close>

theorem errored_property_reading:
  assumes "props = pre @ p # post" and "did p \<notin> did ` set post" and "code p \<noteq> 0"
  shows "(did p = ''power'' \<longrightarrow>
            is_on (status_of props) = Inr VNone \<and> power_str (status_of props) = Inr ''off'')
    \<and> (did p = ''fault'' \<longrightarrow> error (status_of props) = Inr VNone)
    \<and> (did p = ''fan_level'' \<longrightarrow>
          fan_level (status_of props) =
            (Inr Auto, [LogException ''Cannot parse fan level: %s'' (EnumValueError VNone)]))
    \<and> (did p = ''target_humidity'' \<longrightarrow> target_humidity (status_of props) = VNone)
    \<and> (did p = ''relative_humidity'' \<longrightarrow> relative_humidity (status_of props) = VNone)
    \<and> (did p = ''temperature'' \<longrightarrow> temperature (status_of props) = VNone)
    \<and> (did p = ''buzzer'' \<longrightarrow> buzzer (status_of props) = VNone)
    \<and> (did p = ''led_light'' \<longrightarrow> led_light (status_of props) = VNone)
    \<and> (did p = ''tank_filed'' \<longrightarrow> tank_filed (status_of props) = VNone)
    \<and> (did p = ''water_shortage_fault'' \<longrightarrow> water_shortage_fault (status_of props) = VNone)
    \<and> (did p = ''humi_sensor_fault'' \<longrightarrow> humi_sensor_fault (status_of props) = VNone)
    \<and> (did p = ''temp_sensor_fault'' \<longrightarrow> temp_sensor_fault (status_of props) = VNone)
    \<and> (did p = ''overwet_protect'' \<longrightarrow> overwet_protect (status_of props) = VNone)
    \<and> (did p = ''overwet_protect_on'' \<longrightarrow> overwet_protect_on (status_of props) = VNone)
    \<and> (did p = ''overtop_humidity'' \<longrightarrow> overtop_humidity (status_of props) = VNone)"
proof -
  have look: "map_of (data (status_of props)) (did p) = Some VNone"
    using status_of_decides [OF assms(1,2)] assms(3) by simp
  have item: "getitem (data (status_of props)) k = Inr VNone" if "did p = k" for k
    using look that by (simp add: getitem_present)
  have get: "dict_get (data (status_of props)) k = VNone" if "did p = k" for k
    using look that by (simp add: dict_get_present)
  have pow: "power_str (status_of props) = Inr ''off''" if "did p = ''power''"
    using look that by (simp add: power_str_present)
  have fan: "fan_level (status_of props) =
      (Inr Auto, [LogException ''Cannot parse fan level: %s'' (EnumValueError VNone)])"
    if "did p = ''fan_level''"
    using look that by (simp add: fan_level_present)
  show ?thesis
    unfolding is_on_def error_def target_humidity_def relative_humidity_def temperature_def
      buzzer_def led_light_def tank_filed_def water_shortage_fault_def humi_sensor_fault_def
      temp_sensor_fault_def overwet_protect_def overwet_protect_on_def overtop_humidity_def
    using item get pow fan by blast
qed

theorem errored_property_reading_witness:
  "is_on (status_of all_errored) = Inr VNone
   \<and> power_str (status_of all_errored) = Inr ''off''
   \<and> error (status_of all_errored) = Inr VNone
   \<and> fan_level (status_of all_errored) =
        (Inr Auto, [LogException ''Cannot parse fan level: %s'' (EnumValueError VNone)])
   \<and> target_humidity (status_of all_errored) = VNone
   \<and> relative_humidity (status_of all_errored) = VNone
   \<and> temperature (status_of all_errored) = VNone
   \<and> buzzer (status_of all_errored) = VNone
   \<and> led_light (status_of all_errored) = VNone
   \<and> tank_filed (status_of all_errored) = VNone
   \<and> water_shortage_fault (status_of all_errored) = VNone
   \<and> humi_sensor_fault (status_of all_errored) = VNone
   \<and> temp_sensor_fault (status_of all_errored) = VNone
   \<and> overwet_protect (status_of all_errored) = VNone
   \<and> overwet_protect_on (status_of all_errored) = VNone
   \<and> overtop_humidity (status_of all_errored) = VNone"
proof -
  note t = errored_property_reading [where props = all_errored]
  have r0: "is_on (status_of all_errored) = Inr VNone \<and> power_str (status_of all_errored) = Inr ''off''"
    using t [of "take 0 all_errored" "all_errored ! 0" "drop 1 all_errored"]
    by (simp add: all_errored_def)
  have r1: "error (status_of all_errored) = Inr VNone"
    using t [of "take 1 all_errored" "all_errored ! 1" "drop 2 all_errored"]
    by (simp add: all_errored_def)
  have r2: "fan_level (status_of all_errored) =
        (Inr Auto, [LogException ''Cannot parse fan level: %s'' (EnumValueError VNone)])"
    using t [of "take 2 all_errored" "all_errored ! 2" "drop 3 all_errored"]
    by (simp add: all_errored_def)
  have r3: "target_humidity (status_of all_errored) = VNone"
    using t [of "take 3 all_errored" "all_errored ! 3" "drop 4 all_errored"]
    by (simp add: all_errored_def)
  have r4: "relative_humidity (status_of all_errored) = VNone"
    using t [of "take 4 all_errored" "all_errored ! 4" "drop 5 all_errored"]
    by (simp add: all_errored_def)
  have r5: "temperature (status_of all_errored) = VNone"
    using t [of "take 5 all_errored" "all_errored ! 5" "drop 6 all_errored"]
    by (simp add: all_errored_def)
  have r6: "buzzer (status_of all_errored) = VNone"
    using t [of "take 6 all_errored" "all_errored ! 6" "drop 7 all_errored"]
    by (simp add: all_errored_def)
  have r7: "led_light (status_of all_errored) = VNone"
    using t [of "take 7 all_errored" "all_errored ! 7" "drop 8 all_errored"]
    by (simp add: all_errored_def)
  have r8: "tank_filed (status_of all_errored) = VNone"
    using t [of "take 8 all_errored" "all_errored ! 8" "drop 9 all_errored"]
    by (simp add: all_errored_def)
  have r9: "water_shortage_fault (status_of all_errored) = VNone"
    using t [of "take 9 all_errored" "all_errored ! 9" "drop 10 all_errored"]
    by (simp add: all_errored_def)
  have r10: "humi_sensor_fault (status_of all_errored) = VNone"
    using t [of "take 10 all_errored" "all_errored ! 10" "drop 11 all_errored"]
    by (simp add: all_errored_def)
  have r11: "temp_sensor_fault (status_of all_errored) = VNone"
    using t [of "take 11 all_errored" "all_errored ! 11" "drop 12 all_errored"]
    by (simp add: all_errored_def)
  have r12: "overwet_protect (status_of all_errored) = VNone"
    using t [of "take 12 all_errored" "all_errored ! 12" "drop 13 all_errored"]
    by (simp add: all_errored_def)
  have r13: "overwet_protect_on (status_of all_errored) = VNone"
    using t [of "take 13 all_errored" "all_errored ! 13" "drop 14 all_errored"]
    by (simp add: all_errored_def)
  have r14: "overtop_humidity (status_of all_errored) = VNone"
    using t [of "take 14 all_errored" "all_errored ! 14" "drop 15 all_errored"]
    by (simp add: all_errored_def)
  show ?thesis
    using r0 r1 r2 r3 r4 r5 r6 r7 r8 r9 r10 r11 r12 r13 r14 by simp
qed

text \<open>
  C5, as stated, fails: the \<open>fan_level\<close> accessor turns the raw value 9, read without error,
  into \<open>Auto\<close>, whose value is 4, and the \<open>power\<close> accessor turns the raw value \<open>True\<close> into
  the string "on".
\<close>

theorem projection_counterexample:
  "fst (fan_level (status_of [\<lparr>did = ''fan_level'', code = 0, pvalue = VInt 9\<rparr>])) = Inr Auto
   \<and> OperationMode_value Auto \<noteq> 9
   \<and> power_str (status_of [\<lparr>did = ''power'', code = 0, pvalue = VBool True\<rparr>]) = Inr ''on''"
  by (simp add: status_of_def dict_def fan_level_def power_str_def is_on_def getitem_def
      OperationMode_call_def)

text \<open>
  C5, amended: let an entry of a response carry the error code 0 and a value \<open>V\<close>, and be the
  last entry of the response for its name. Then \<open>is_on\<close>, \<open>error\<close> (for the name \<open>fault\<close>)
  and the accessors \<open>target_humidity\<close>, \<open>relative_humidity\<close>, \<open>temperature\<close>, \<open>buzzer\<close>,
  \<open>led_light\<close>, \<open>tank_filed\<close>, \<open>water_shortage_fault\<close>, \<open>humi_sensor_fault\<close>,
  \<open>temp_sensor_fault\<close>, \<open>overwet_protect\<close>, \<open>overwet_protect_on\<close> and \<open>overtop_humidity\<close>
  return \<open>V\<close> unchanged; \<open>fan_level\<close> returns the member whose value equals \<open>V\<close>, and \<open>Auto\<close>
  when there is none; \<open>power\<close> returns "on" when \<open>V\<close> is true and "off" otherwise.
\<close>

theorem ok_property_reading:
  assumes "props = pre @ p # post" and "did p \<notin> did ` set post" and "code p = 0"
  shows "(did p = ''power'' \<longrightarrow>
            is_on (status_of props) = Inr (pvalue p)
            \<and> power_str (status_of props) = Inr (if truthy (pvalue p) then ''on'' else ''off''))
    \<and> (did p = ''fault'' \<longrightarrow> error (status_of props) = Inr (pvalue p))
    \<and> (did p = ''fan_level'' \<longrightarrow>
          fst (fan_level (status_of props)) =
            Inr (if py_eq_int (pvalue p) 1 then Low else if py_eq_int (pvalue p) 2 then Mid
                 else if py_eq_int (pvalue p) 3 then High else Auto))
    \<and> (did p = ''target_humidity'' \<longrightarrow> target_humidity (status_of props) = pvalue p)
    \<and> (did p = ''relative_humidity'' \<longrightarrow> relative_humidity (status_of props) = pvalue p)
    \<and> (did p = ''temperature'' \<longrightarrow> temperature (status_of props) = pvalue p)
    \<and> (did p = ''buzzer'' \<longrightarrow> buzzer (status_of props) = pvalue p)
    \<and> (did p = ''led_light'' \<longrightarrow> led_light (status_of props) = pvalue p)
    \<and> (did p = ''tank_filed'' \<longrightarrow> tank_filed (status_of props) = pvalue p)
    \<and> (did p = ''water_shortage_fault'' \<longrightarrow> water_shortage_fault (status_of props) = pvalue p)
    \<and> (did p = ''humi_sensor_fault'' \<longrightarrow> humi_sensor_fault (status_of props) = pvalue p)
    \<and> (did p = ''temp_sensor_fault'' \<longrightarrow> temp_sensor_fault (status_of props) = pvalue p)
    \<and> (did p = ''overwet_protect'' \<longrightarrow> overwet_protect (status_of props) = pvalue p)
    \<and> (did p = ''overwet_protect_on'' \<longrightarrow> overwet_protect_on (status_of props) = pvalue p)
    \<and> (did p = ''overtop_humidity'' \<longrightarrow> overtop_humidity (status_of props) = pvalue p)"
proof -
  have look: "map_of (data (status_of props)) (did p) = Some (pvalue p)"
    using status_of_decides [OF assms(1,2)] assms(3) by simp
  have item: "getitem (data (status_of props)) k = Inr (pvalue p)" if "did p = k" for k
    using look that by (simp add: getitem_present)
  have get: "dict_get (data (status_of props)) k = pvalue p" if "did p = k" for k
    using look that by (simp add: dict_get_present)
  have pow: "power_str (status_of props) = Inr (if truthy (pvalue p) then ''on'' else ''off'')"
    if "did p = ''power''"
    using look that by (simp add: power_str_present)
  have fan: "fst (fan_level (status_of props)) =
      Inr (if py_eq_int (pvalue p) 1 then Low else if py_eq_int (pvalue p) 2 then Mid
           else if py_eq_int (pvalue p) 3 then High else Auto)"
    if "did p = ''fan_level''"
    using look that by (simp add: fan_level_present)
  show ?thesis
    unfolding is_on_def error_def target_humidity_def relative_humidity_def temperature_def
      buzzer_def led_light_def tank_filed_def water_shortage_fault_def humi_sensor_fault_def
      temp_sensor_fault_def overwet_protect_def overwet_protect_on_def overtop_humidity_def
    using item get pow fan by blast
qed

theorem ok_property_reading_witness:
  "is_on (status_of all_ok) = Inr (VBool True) \<and> power_str (status_of all_ok) = Inr ''on''
   \<and> error (status_of all_ok) = Inr (VInt 0)
   \<and> fst (fan_level (status_of all_ok)) = Inr Mid
   \<and> target_humidity (status_of all_ok) = VInt 55
   \<and> relative_humidity (status_of all_ok) = VInt 0
   \<and> temperature (status_of all_ok) = VFloat 23.5
   \<and> buzzer (status_of all_ok) = VBool False
   \<and> led_light (status_of all_ok) = VBool True
   \<and> tank_filed (status_of all_ok) = VBool True
   \<and> water_shortage_fault (status_of all_ok) = VBool False
   \<and> humi_sensor_fault (status_of all_ok) = VBool False
   \<and> temp_sensor_fault (status_of all_ok) = VBool False
   \<and> overwet_protect (status_of all_ok) = VBool True
   \<and> overwet_protect_on (status_of all_ok) = VBool False
   \<and> overtop_humidity (status_of all_ok) = VBool False"
proof -
  note t = ok_property_reading [where props = all_ok]
  have r0: "is_on (status_of all_ok) = Inr (VBool True) \<and> power_str (status_of all_ok) = Inr ''on''"
    using t [of "take 0 all_ok" "all_ok ! 0" "drop 1 all_ok"]
    by (simp add: all_ok_def)
  have r1: "error (status_of all_ok) = Inr (VInt 0)"
    using t [of "take 1 all_ok" "all_ok ! 1" "drop 2 all_ok"]
    by (simp add: all_ok_def)
  have r2: "fst (fan_level (status_of all_ok)) = Inr Mid"
    using t [of "take 2 all_ok" "all_ok ! 2" "drop 3 all_ok"]
    by (simp add: all_ok_def)
  have r3: "target_humidity (status_of all_ok) = VInt 55"
    using t [of "take 3 all_ok" "all_ok ! 3" "drop 4 all_ok"]
    by (simp add: all_ok_def)
  have r4: "relative_humidity (status_of all_ok) = VInt 0"
    using t [of "take 4 all_ok" "all_ok ! 4" "drop 5 all_ok"]
    by (simp add: all_ok_def)
  have r5: "temperature (status_of all_ok) = VFloat 23.5"
    using t [of "take 5 all_ok" "all_ok ! 5" "drop 6 all_ok"]
    by (simp add: all_ok_def)
  have r6: "buzzer (status_of all_ok) = VBool False"
    using t [of "take 6 all_ok" "all_ok ! 6" "drop 7 all_ok"]
    by (simp add: all_ok_def)
  have r7: "led_light (status_of all_ok) = VBool True"
    using t [of "take 7 all_ok" "all_ok ! 7" "drop 8 all_ok"]
    by (simp add: all_ok_def)
  have r8: "tank_filed (status_of all_ok) = VBool True"
    using t [of "take 8 all_ok" "all_ok ! 8" "drop 9 all_ok"]
    by (simp add: all_ok_def)
  have r9: "water_shortage_fault (status_of all_ok) = VBool False"
    using t [of "take 9 all_ok" "all_ok ! 9" "drop 10 all_ok"]
    by (simp add: all_ok_def)
  have r10: "humi_sensor_fault (status_of all_ok) = VBool False"
    using t [of "take 10 all_ok" "all_ok ! 10" "drop 11 all_ok"]
    by (simp add: all_ok_def)
  have r11: "temp_sensor_fault (status_of all_ok) = VBool False"
    using t [of "take 11 all_ok" "all_ok ! 11" "drop 12 all_ok"]
    by (simp add: all_ok_def)
  have r12: "overwet_protect (status_of all_ok) = VBool True"
    using t [of "take 12 all_ok" "all_ok ! 12" "drop 13 all_ok"]
    by (simp add: all_ok_def)
  have r13: "overwet_protect_on (status_of all_ok) = VBool False"
    using t [of "take 13 all_ok" "all_ok ! 13" "drop 14 all_ok"]
    by (simp add: all_ok_def)
  have r14: "overtop_humidity (status_of all_ok) = VBool False"
    using t [of "take 14 all_ok" "all_ok ! 14" "drop 15 all_ok"]
    by (simp add: all_ok_def)
  show ?thesis
    using r0 r1 r2 r3 r4 r5 r6 r7 r8 r9 r10 r11 r12 r13 r14 by simp
qed

section \<open>The status query\<close>

text \<open>
  C7, as stated, fails: when the device reports an error for \<open>power\<close> and \<open>fan_level\<close> only,
  \<open>status()\<close> returns a status object, but the two affected readings are not unavailable:
  \<open>power\<close> reads "off" and \<open>fan_level\<close> reads \<open>Auto\<close>, as for a device that reports to be
  switched off at level 4.
\<close>

theorem status_outage_counterexample:
  "status power_fan_outage 0 = (Inr (status_of power_fan_errored), 1)
   \<and> power_str (status_of power_fan_errored) = Inr ''off''
   \<and> fst (fan_level (status_of power_fan_errored)) = Inr Auto
   \<and> power_str (status_of switched_off_auto) = Inr ''off''
   \<and> fst (fan_level (status_of switched_off_auto)) = Inr Auto"
  by (simp add: status_def power_fan_outage_def power_fan_errored_def switched_off_auto_def
      status_of_def dict_def fan_level_def power_str_def is_on_def getitem_def
      OperationMode_call_def)

text \<open>
  C7, amended: whenever the client returns a response, \<open>status()\<close> returns a status object,
  whatever the error codes of the entries: its dictionary has exactly the names of the
  response, each once, and the last entry for a name gives its value when its code is 0 and
  \<open>None\<close> otherwise, so that an errored entry changes no other name's reading. For a name
  whose entry is errored, \<open>is_on\<close>, \<open>error\<close> and the accessors \<open>target_humidity\<close>,
  \<open>relative_humidity\<close>, \<open>temperature\<close>, \<open>buzzer\<close>, \<open>led_light\<close>, \<open>tank_filed\<close>,
  \<open>water_shortage_fault\<close>, \<open>humi_sensor_fault\<close>, \<open>temp_sensor_fault\<close>, \<open>overwet_protect\<close>,
  \<open>overwet_protect_on\<close> and \<open>overtop_humidity\<close> read \<open>None\<close>, while \<open>fan_level\<close> reads \<open>Auto\<close>
  (and logs one record) and \<open>power\<close> reads "off". \<open>status()\<close> raises only when the client's
  call raises, and then the same exception.
\<close>

theorem status_returns:
  "(get_properties_for_mapping self = (Inr props, self') \<longrightarrow>
      status get_properties_for_mapping self = (Inr (status_of props), self')
      \<and> fst ` set (data (status_of props)) = did ` set props
      \<and> distinct (map fst (data (status_of props)))
      \<and> (\<forall>pre p post. props = pre @ p # post \<and> did p \<notin> did ` set post \<longrightarrow>
            map_of (data (status_of props)) (did p)
              = Some (if code p = 0 then pvalue p else VNone)
            \<and> (code p \<noteq> 0 \<longrightarrow>
                (did p = ''power'' \<longrightarrow>
                    is_on (status_of props) = Inr VNone \<and> power_str (status_of props) = Inr ''off'')
                \<and> (did p = ''fault'' \<longrightarrow> error (status_of props) = Inr VNone)
                \<and> (did p = ''fan_level'' \<longrightarrow>
                    fan_level (status_of props) =
                      (Inr Auto, [LogException ''Cannot parse fan level: %s'' (EnumValueError VNone)]))
                \<and> (did p = ''target_humidity'' \<longrightarrow> target_humidity (status_of props) = VNone)
                \<and> (did p = ''relative_humidity'' \<longrightarrow> relative_humidity (status_of props) = VNone)
                \<and> (did p = ''temperature'' \<longrightarrow> temperature (status_of props) = VNone)
                \<and> (did p = ''buzzer'' \<longrightarrow> buzzer (status_of props) = VNone)
                \<and> (did p = ''led_light'' \<longrightarrow> led_light (status_of props) = VNone)
                \<and> (did p = ''tank_filed'' \<longrightarrow> tank_filed (status_of props) = VNone)
                \<and> (did p = ''water_shortage_fault'' \<longrightarrow> water_shortage_fault (status_of props) = VNone)
                \<and> (did p = ''humi_sensor_fault'' \<longrightarrow> humi_sensor_fault (status_of props) = VNone)
                \<and> (did p = ''temp_sensor_fault'' \<longrightarrow> temp_sensor_fault (status_of props) = VNone)
                \<and> (did p = ''overwet_protect'' \<longrightarrow> overwet_protect (status_of props) = VNone)
                \<and> (did p = ''overwet_protect_on'' \<longrightarrow> overwet_protect_on (status_of props) = VNone)
                \<and> (did p = ''overtop_humidity'' \<longrightarrow> overtop_humidity (status_of props) = VNone))))
   \<and> (get_properties_for_mapping self = (Inl e, self') \<longrightarrow>
      status get_properties_for_mapping self = (Inl e, self'))"
proof -
  have readings:
     "(did p = ''power'' \<longrightarrow>
          is_on (status_of props) = Inr VNone \<and> power_str (status_of props) = Inr ''off'')
      \<and> (did p = ''fault'' \<longrightarrow> error (status_of props) = Inr VNone)
      \<and> (did p = ''fan_level'' \<longrightarrow>
          fan_level (status_of props) =
            (Inr Auto, [LogException ''Cannot parse fan level: %s'' (EnumValueError VNone)]))
      \<and> (did p = ''target_humidity'' \<longrightarrow> target_humidity (status_of props) = VNone)
      \<and> (did p = ''relative_humidity'' \<longrightarrow> relative_humidity (status_of props) = VNone)
      \<and> (did p = ''temperature'' \<longrightarrow> temperature (status_of props) = VNone)
      \<and> (did p = ''buzzer'' \<longrightarrow> buzzer (status_of props) = VNone)
      \<and> (did p = ''led_light'' \<longrightarrow> led_light (status_of props) = VNone)
      \<and> (did p = ''tank_filed'' \<longrightarrow> tank_filed (status_of props) = VNone)
      \<and> (did p = ''water_shortage_fault'' \<longrightarrow> water_shortage_fault (status_of props) = VNone)
      \<and> (did p = ''humi_sensor_fault'' \<longrightarrow> humi_sensor_fault (status_of props) = VNone)
      \<and> (did p = ''temp_sensor_fault'' \<longrightarrow> temp_sensor_fault (status_of props) = VNone)
      \<and> (did p = ''overwet_protect'' \<longrightarrow> overwet_protect (status_of props) = VNone)
      \<and> (did p = ''overwet_protect_on'' \<longrightarrow> overwet_protect_on (status_of props) = VNone)
      \<and> (did p = ''overtop_humidity'' \<longrightarrow> overtop_humidity (status_of props) = VNone)"
    if split: "props = pre @ p # post" and last: "did p \<notin> did ` set post" and err: "code p \<noteq> 0"
    for pre p post
  proof -
    have look: "map_of (data (status_of props)) (did p) = Some VNone"
      using status_of_decides [OF split last] err by simp
    have item: "getitem (data (status_of props)) k = Inr VNone" if "did p = k" for k
      using look that by (simp add: getitem_present)
    have get: "dict_get (data (status_of props)) k = VNone" if "did p = k" for k
      using look that by (simp add: dict_get_present)
    have pow: "power_str (status_of props) = Inr ''off''" if "did p = ''power''"
      using look that by (simp add: power_str_present)
    have fan: "fan_level (status_of props) =
        (Inr Auto, [LogException ''Cannot parse fan level: %s'' (EnumValueError VNone)])"
      if "did p = ''fan_level''"
      using look that by (simp add: fan_level_present)
    show ?thesis
      unfolding is_on_def error_def target_humidity_def relative_humidity_def temperature_def
        buzzer_def led_light_def tank_filed_def water_shortage_fault_def humi_sensor_fault_def
        temp_sensor_fault_def overwet_protect_def overwet_protect_on_def overtop_humidity_def
      using item get pow fan by blast
  qed
  show ?thesis
    apply (intro conjI impI)
        subgoal by (simp add: status_def)
       subgoal by (simp add: keys_status_of)
      subgoal by (simp add: status_of_def distinct_dict)
     subgoal
       apply (intro allI impI)
       apply (erule conjE)
       apply (rule conjI)
        apply (erule (1) status_of_decides)
       apply (rule impI)
       apply (erule (2) readings)
       done
    subgoal by (simp add: status_def)
    done
qed

theorem status_returns_witness:
  "status outage 0 = (Inr (status_of all_errored), 1)
   \<and> is_on (status_of all_errored) = Inr VNone \<and> power_str (status_of all_errored) = Inr ''off''
   \<and> error (status_of all_errored) = Inr VNone
   \<and> fan_level (status_of all_errored) =
        (Inr Auto, [LogException ''Cannot parse fan level: %s'' (EnumValueError VNone)])
   \<and> target_humidity (status_of all_errored) = VNone
   \<and> relative_humidity (status_of all_errored) = VNone
   \<and> temperature (status_of all_errored) = VNone
   \<and> buzzer (status_of all_errored) = VNone
   \<and> led_light (status_of all_errored) = VNone
   \<and> tank_filed (status_of all_errored) = VNone
   \<and> water_shortage_fault (status_of all_errored) = VNone
   \<and> humi_sensor_fault (status_of all_errored) = VNone
   \<and> temp_sensor_fault (status_of all_errored) = VNone
   \<and> overwet_protect (status_of all_errored) = VNone
   \<and> overwet_protect_on (status_of all_errored) = VNone
   \<and> overtop_humidity (status_of all_errored) = VNone
   \<and> status partial_outage 0 =
       (Inr \<lparr>data = [(''target_humidity'', VInt 55), (''temperature'', VNone)]\<rparr>, 1)
   \<and> status unreachable 0 = (Inl (DeviceException ''No response from the device''), 1)"
proof -
  have ok: "outage 0 = (Inr all_errored, 1)"
    by (simp add: outage_def)
  note r = status_returns [of outage 0 all_errored 1, THEN conjunct1, THEN mp, OF ok]
  note t = r [THEN conjunct2, THEN conjunct2, THEN conjunct2, rule_format]
  have s0: "status outage 0 = (Inr (status_of all_errored), 1)"
    using r by simp
  have r0: "is_on (status_of all_errored) = Inr VNone \<and> power_str (status_of all_errored) = Inr ''off''"
    using t [of "take 0 all_errored" "all_errored ! 0" "drop 1 all_errored"]
    by (simp add: all_errored_def)
  have r1: "error (status_of all_errored) = Inr VNone"
    using t [of "take 1 all_errored" "all_errored ! 1" "drop 2 all_errored"]
    by (simp add: all_errored_def)
  have r2: "fan_level (status_of all_errored) =
        (Inr Auto, [LogException ''Cannot parse fan level: %s'' (EnumValueError VNone)])"
    using t [of "take 2 all_errored" "all_errored ! 2" "drop 3 all_errored"]
    by (simp add: all_errored_def)
  have r3: "target_humidity (status_of all_errored) = VNone"
    using t [of "take 3 all_errored" "all_errored ! 3" "drop 4 all_errored"]
    by (simp add: all_errored_def)
  have r4: "relative_humidity (status_of all_errored) = VNone"
    using t [of "take 4 all_errored" "all_errored ! 4" "drop 5 all_errored"]
    by (simp add: all_errored_def)
  have r5: "temperature (status_of all_errored) = VNone"
    using t [of "take 5 all_errored" "all_errored ! 5" "drop 6 all_errored"]
    by (simp add: all_errored_def)
  have r6: "buzzer (status_of all_errored) = VNone"
    using t [of "take 6 all_errored" "all_errored ! 6" "drop 7 all_errored"]
    by (simp add: all_errored_def)
  have r7: "led_light (status_of all_errored) = VNone"
    using t [of "take 7 all_errored" "all_errored ! 7" "drop 8 all_errored"]
    by (simp add: all_errored_def)
  have r8: "tank_filed (status_of all_errored) = VNone"
    using t [of "take 8 all_errored" "all_errored ! 8" "drop 9 all_errored"]
    by (simp add: all_errored_def)
  have r9: "water_shortage_fault (status_of all_errored) = VNone"
    using t [of "take 9 all_errored" "all_errored ! 9" "drop 10 all_errored"]
    by (simp add: all_errored_def)
  have r10: "humi_sensor_fault (status_of all_errored) = VNone"
    using t [of "take 10 all_errored" "all_errored ! 10" "drop 11 all_errored"]
    by (simp add: all_errored_def)
  have r11: "temp_sensor_fault (status_of all_errored) = VNone"
    using t [of "take 11 all_errored" "all_errored ! 11" "drop 12 all_errored"]
    by (simp add: all_errored_def)
  have r12: "overwet_protect (status_of all_errored) = VNone"
    using t [of "take 12 all_errored" "all_errored ! 12" "drop 13 all_errored"]
    by (simp add: all_errored_def)
  have r13: "overwet_protect_on (status_of all_errored) = VNone"
    using t [of "take 13 all_errored" "all_errored ! 13" "drop 14 all_errored"]
    by (simp add: all_errored_def)
  have r14: "overtop_humidity (status_of all_errored) = VNone"
    using t [of "take 14 all_errored" "all_errored ! 14" "drop 15 all_errored"]
    by (simp add: all_errored_def)
  let ?props = "[\<lparr>did = ''target_humidity'', code = 0, pvalue = VInt 55\<rparr>,
                 \<lparr>did = ''temperature'', code = - 4001, pvalue = VNone\<rparr>]"
  have p1: "status partial_outage 0 = (Inr (status_of ?props), 1)"
    using status_returns [of partial_outage 0 ?props 1] by (simp add: partial_outage_def)
  have p2: "status_of ?props = \<lparr>data = [(''target_humidity'', VInt 55), (''temperature'', VNone)]\<rparr>"
    by (simp add: status_of_def dict_def)
  have u: "status unreachable 0 = (Inl (DeviceException ''No response from the device''), 1)"
    using status_returns [of unreachable 0 _ 1 "DeviceException ''No response from the device''"]
    by (simp add: unreachable_def)
  show ?thesis
    using s0 r0 r1 r2 r3 r4 r5 r6 r7 r8 r9 r10 r11 r12 r13 r14 p1 p2 u by simp
qed

section \<open>The set operations\<close>

text \<open>
  C2: \<open>set_target_humidity(39)\<close> and \<open>set_target_humidity(71)\<close> raise a \<open>ValueError\<close> and
  leave the client untouched; \<open>set_target_humidity(55)\<close> raises nothing of its own and calls
  the client exactly once, with the name \<open>target_humidity\<close> and the value 55, returning what
  the client returns.
\<close>

theorem target_humidity_examples:
  "set_target_humidity (recording reply) 39 calls =
     (Inl (ValueError ''Invalid target humidity: 39. Must be between 40 and 70''), calls)
   \<and> set_target_humidity (recording reply) 71 calls =
     (Inl (ValueError ''Invalid target humidity: 71. Must be between 40 and 70''), calls)
   \<and> set_target_humidity (recording reply) 55 calls =
     (reply calls (''target_humidity'', VInt 55), calls @ [(''target_humidity'', VInt 55)])
   \<and> set_target_humidity (recording accepting) 55 [] =
     (Inr (), [(''target_humidity'', VInt 55)])"
  by (simp add: set_target_humidity_def recording_def accepting_def str_int_def str_nat.simps)

text \<open>
  C3, as stated, fails: 75 and 79 lie in the range from 40 (included) to 80 (excluded), and
  \<open>set_target_humidity\<close> rejects both, naming 70 as the upper bound.
\<close>

theorem target_humidity_range_counterexample:
  "set_target_humidity (recording accepting) 75 [] =
     (Inl (ValueError ''Invalid target humidity: 75. Must be between 40 and 70''), [])
   \<and> set_target_humidity (recording accepting) 79 [] =
     (Inl (ValueError ''Invalid target humidity: 79. Must be between 40 and 70''), [])"
  by (simp add: set_target_humidity_def recording_def accepting_def str_int_def str_nat.simps)

text \<open>
  C3, amended: the bounds of the check are 40 and 70. For every integer \<open>humidity\<close> with
  \<open>40 < humidity < 70\<close>, \<open>set_target_humidity(humidity)\<close> passes the check and calls the
  client once; for every integer below 40 or above 70 it raises a \<open>ValueError\<close> whose message
  names the bounds 40 and 70, and the client is not called. Nothing is said about the two
  bounds themselves.
\<close>

theorem target_humidity_range:
  "(40 < humidity \<and> humidity < 70 \<longrightarrow>
      set_target_humidity (recording reply) humidity calls =
        (reply calls (''target_humidity'', VInt humidity),
         calls @ [(''target_humidity'', VInt humidity)]))
   \<and> (humidity < 40 \<or> 70 < humidity \<longrightarrow>
      set_target_humidity (recording reply) humidity calls =
        (Inl (ValueError (''Invalid target humidity: '' @ str_int humidity
                          @ ''. Must be between 40 and 70'')), calls))"
  by (auto simp: set_target_humidity_def recording_def)

theorem target_humidity_range_witness:
  "set_target_humidity (recording accepting) 41 [] = (Inr (), [(''target_humidity'', VInt 41)])
   \<and> set_target_humidity (recording accepting) 69 [] = (Inr (), [(''target_humidity'', VInt 69)])
   \<and> set_target_humidity (recording accepting) 39 [] =
       (Inl (ValueError ''Invalid target humidity: 39. Must be between 40 and 70''), [])
   \<and> set_target_humidity (recording accepting) 71 [] =
       (Inl (ValueError ''Invalid target humidity: 71. Must be between 40 and 70''), [])
   \<and> set_target_humidity (recording accepting) (- 5) [] =
       (Inl (ValueError ''Invalid target humidity: -5. Must be between 40 and 70''), [])"
  using target_humidity_range [of 41 accepting "[]"] target_humidity_range [of 69 accepting "[]"]
    target_humidity_range [of 39 accepting "[]"] target_humidity_range [of 71 accepting "[]"]
    target_humidity_range [of "- 5" accepting "[]"]
  by (simp add: accepting_def str_int_def str_nat.simps)

text \<open>
  C8: each of \<open>on\<close>, \<open>off\<close>, \<open>set_light\<close>, \<open>set_buzzer\<close>, \<open>set_overwet_protect\<close>,
  \<open>set_overwet_protect_on\<close> and \<open>set_fan_level\<close> is one call of the client's \<open>set_property\<close>
  with its symbolic name and the given value (the member's value for \<open>set_fan_level\<close>): the
  outcome, result or exception, is the client's, and a recording client sees exactly one call.
\<close>

theorem set_operations_delegate:
  "on set_property self = set_property ''power'' (VBool True) self
   \<and> off set_property self = set_property ''power'' (VBool False) self
   \<and> set_light set_property b self = set_property ''led_light'' (VBool b) self
   \<and> set_buzzer set_property b self = set_property ''buzzer'' (VBool b) self
   \<and> set_overwet_protect set_property b self = set_property ''overwet_protect'' (VBool b) self
   \<and> set_overwet_protect_on set_property b self
        = set_property ''overwet_protect_on'' (VBool b) self
   \<and> set_fan_level set_property m self
        = set_property ''fan_level'' (VInt (OperationMode_value m)) self
   \<and> on (recording reply) calls
        = (reply calls (''power'', VBool True), calls @ [(''power'', VBool True)])
   \<and> off (recording reply) calls
        = (reply calls (''power'', VBool False), calls @ [(''power'', VBool False)])
   \<and> set_light (recording reply) b calls
        = (reply calls (''led_light'', VBool b), calls @ [(''led_light'', VBool b)])
   \<and> set_buzzer (recording reply) b calls
        = (reply calls (''buzzer'', VBool b), calls @ [(''buzzer'', VBool b)])
   \<and> set_overwet_protect (recording reply) b calls
        = (reply calls (''overwet_protect'', VBool b), calls @ [(''overwet_protect'', VBool b)])
   \<and> set_overwet_protect_on (recording reply) b calls
        = (reply calls (''overwet_protect_on'', VBool b),
           calls @ [(''overwet_protect_on'', VBool b)])
   \<and> set_fan_level (recording reply) m calls
        = (reply calls (''fan_level'', VInt (OperationMode_value m)),
           calls @ [(''fan_level'', VInt (OperationMode_value m))])"
  by (simp add: on_def off_def set_light_def set_buzzer_def set_overwet_protect_def
      set_overwet_protect_on_def set_fan_level_def recording_def)

text \<open>An exception of the client reaches the caller as it is, after the one call.\<close>

lemma on_surfaces_client_error:
  "on (recording failing) [] =
     (Inl (DeviceException ''No response from the device''), [(''power'', VBool True)])"
  by (simp add: on_def recording_def failing_def)

section \<open>The mapping tables of the supported models\<close>

text \<open>
  C6: for each of the two supported models, the table that \<open>MIOT_MAPPING\<close> holds for it
  resolves each of the names \<open>power\<close>, \<open>target_humidity\<close>, \<open>fan_level\<close>, \<open>led_light\<close>,
  \<open>buzzer\<close>, \<open>overwet_protect\<close> and \<open>overwet_protect_on\<close> to a property reference.
\<close>

theorem facade_names_resolve:
  "\<forall>model \<in> set SUPPORTED_MODELS. \<forall>name \<in> set facade_names.
     \<exists>table ref. map_of MIOT_MAPPING model = Some table \<and> map_of table name = Some ref"
  by (simp add: MIOT_MAPPING_eq SUPPORTED_MODELS_def facade_names_def MAPPING_eq)

theorem facade_names_resolve_witness:
  "''deerma.humidifier.jsq2g'' \<in> set SUPPORTED_MODELS \<and> ''overwet_protect_on'' \<in> set facade_names
   \<and> (\<exists>table ref. map_of MIOT_MAPPING ''deerma.humidifier.jsq2g'' = Some table
        \<and> map_of table ''overwet_protect_on'' = Some ref)"
proof -
  have m: "''deerma.humidifier.jsq2g'' \<in> set SUPPORTED_MODELS"
    by (simp add: SUPPORTED_MODELS_def)
  have n: "''overwet_protect_on'' \<in> set facade_names"
    by (simp add: facade_names_def)
  show ?thesis using m n facade_names_resolve by blast
qed

text \<open>
  C9: the literal names \<open>overtop_humidity\<close> twice; the table built from it has one entry for
  that name, which resolves to siid 7, piid 8, and no name of the table, for either model,
  resolves to siid 7, piid 7.
\<close>

theorem overtop_humidity_entry:
  "length (filter (\<lambda>item. fst item = ''overtop_humidity'') MAPPING_items) = 2
   \<and> length (filter (\<lambda>item. fst item = ''overtop_humidity'') MAPPING) = 1
   \<and> map_of MAPPING ''overtop_humidity'' = Some \<lparr>siid = 7, piid = 8\<rparr>
   \<and> \<lparr>siid = 7, piid = 7\<rparr> \<notin> snd ` set MAPPING
   \<and> map (map_of MIOT_MAPPING) SUPPORTED_MODELS = [Some MAPPING, Some MAPPING]"
proof -
  have "length (filter (\<lambda>item. fst item = ''overtop_humidity'') MAPPING_items) = 2"
    by (simp add: MAPPING_items_def)
  moreover have "length (filter (\<lambda>item. fst item = ''overtop_humidity'') MAPPING) = 1"
    by (simp add: MAPPING_eq)
  moreover have "map_of MAPPING ''overtop_humidity'' = Some \<lparr>siid = 7, piid = 8\<rparr>"
    by (simp add: MAPPING_eq)
  moreover have "\<lparr>siid = 7, piid = 7\<rparr> \<notin> snd ` set MAPPING"
    by (simp add: MAPPING_eq)
  moreover have "map (map_of MIOT_MAPPING) SUPPORTED_MODELS = [Some MAPPING, Some MAPPING]"
    by (simp add: MIOT_MAPPING_eq SUPPORTED_MODELS_def)
  ultimately show ?thesis by simp
qed

end
